theory Spec2Isabelle
  imports Main
begin

section \<open>Data model of \<^verbatim>\<open>src/index.ts\<close>\<close>

text \<open>
  The library is one class, \<^verbatim>\<open>Recometry\<close>, around two collaborators it does not
  implement: a SignalR \<^verbatim>\<open>HubConnection\<close> (the real-time channel) and the platform's
  \<^verbatim>\<open>fetch\<close>. The class is embedded as functions over an explicit world; what a
  collaborator answers is a parameter, so every theorem holds for every behaviour of the
  transport, failing ones included.
\<close>

text \<open>A thrown or rejected value. The constructor throws \<^verbatim>\<open>new Error("config is required")\<close>.\<close>

datatype error = Error string

text \<open>
  \<^verbatim>\<open>HubConnectionState\<close> of \<^verbatim>\<open>@microsoft/signalr\<close>. The library's enum has the
  five members below; the code compares against \<^verbatim>\<open>Connected\<close> and \<^verbatim>\<open>Disconnected\<close> only.
\<close>

datatype HubConnectionState = Disconnected | Connecting | Connected | Disconnecting | Reconnecting

datatype HttpTransportType = WebSockets | ServerSentEvents | LongPolling

text \<open>A JSON-like value for the \<^verbatim>\<open>any\<close> of \<^verbatim>\<open>Record<string, any>\<close>.\<close>

datatype jsvalue = JNull | JBool bool | JNum int | JStr string

datatype event_type = click | rating

text \<open>
  \<^verbatim>\<open>RecometryEvent = {id, type, data, productId, userId}\<close>. Field names carry a prefix
  where two records of the source share a name (\<^verbatim>\<open>data\<close>, \<^verbatim>\<open>userId\<close>) or the name is
  a constant of HOL (\<^verbatim>\<open>id\<close>).
\<close>

record RecometryEvent =
  ev_id :: string
  ev_type :: event_type
  ev_data :: "(string \<times> jsvalue) list"
  ev_productId :: int
  ev_userId :: string

record RecommendationRequest =
  rec_modelId :: string
  rec_userId :: string
  rec_limit :: int

record PredictionRequest =
  pred_modelId :: string
  pred_data :: "(string \<times> jsvalue) list"
  pred_limit :: int

text \<open>The argument of \<^verbatim>\<open>JSON.stringify\<close>: one of the two request objects.\<close>

datatype payload = RecommendPayload RecommendationRequest | PredictPayload PredictionRequest

text \<open>The second argument of \<^verbatim>\<open>fetch\<close>, with the URL: method, headers in order, body.\<close>

record Request =
  req_url :: string
  req_method :: string
  req_headers :: "(string \<times> string) list"
  req_body :: string

text \<open>
  Every call that leaves the class appends one event to the trace of the world: building
  the connection, registering a handler, \<^verbatim>\<open>start\<close>, \<^verbatim>\<open>stop\<close>, \<^verbatim>\<open>invoke\<close> with its
  method name and argument list, \<^verbatim>\<open>fetch\<close>, \<^verbatim>\<open>response.json()\<close>, the two console
  calls with their leading string arguments and the error, and the call of the
  configured \<^verbatim>\<open>onError\<close>. \<open>Call\<close> is a ghost event: it marks the entry of one of the
  private methods \<^verbatim>\<open>connect\<close>, \<^verbatim>\<open>disconnect\<close>, \<^verbatim>\<open>reconnect\<close>, so that calls of
  these methods can be counted.
\<close>

datatype event =
    HubBuild string
  | HubOn string
  | HubStart
  | HubStop
  | HubInvoke string "RecometryEvent list"
  | Fetch Request
  | ResponseJson
  | ConsoleLog "string list" error
  | ConsoleError "string list" error
  | OnError error
  | Call string

text \<open>
  The world: \<open>hub\<close> is the state of the real-time transport behind the channel handle,
  \<open>outside\<close> is everything else the class talks to (the HTTP endpoint, the host
  application that supplied \<^verbatim>\<open>onError\<close>), \<open>trace\<close> the events so far.
\<close>

record ('h, 'o) world =
  hub :: 'h
  outside :: 'o
  trace :: "event list"

text \<open>
  An asynchronous computation: from a world to its settlement (\<open>Inl\<close> a rejection or a
  throw, \<open>Inr\<close> the value it resolves with) and the world it leaves.
\<close>

type_synonym ('a, 'h, 'o) async = "('h, 'o) world \<Rightarrow> (error + 'a) \<times> ('h, 'o) world"

text \<open>
  \<^verbatim>\<open>RecometryConfig = {apiKey, env, onError?}\<close>. The TypeScript type makes \<^verbatim>\<open>apiKey\<close>
  and \<^verbatim>\<open>env\<close> required strings; at run time any object reaches the constructor, so
  both fields are optional here (\<open>None\<close>: the property is absent) and \<^verbatim>\<open>env\<close> is any
  string. \<^verbatim>\<open>onError\<close> is code of the host application: it acts on \<open>outside\<close> and may
  reject.
\<close>

record 'o RecometryConfig =
  apiKey :: "string option"
  env :: "string option"
  onError :: "(error \<Rightarrow> 'o \<Rightarrow> (error + unit) \<times> 'o) option"

text \<open>
  The channel handle as the builder leaves it: the URL, the three options given to
  \<^verbatim>\<open>withUrl\<close> (\<open>accessTokenFactory\<close> holds what the factory \<^verbatim>\<open>() => config.apiKey\<close>
  returns), whether \<^verbatim>\<open>withAutomaticReconnect()\<close> was called, and the handlers registered
  with \<^verbatim>\<open>on\<close>, in registration order.
\<close>

record ('h, 'o) HubConnection =
  url :: string
  accessTokenFactory :: "string option"
  skipNegotiation :: bool
  transport :: HttpTransportType
  automaticReconnect :: bool
  methods :: "(string \<times> (error \<Rightarrow> (unit, 'h, 'o) async)) list"

text \<open>The three private readonly fields of the class.\<close>

record ('h, 'o) Recometry =
  configuration :: "'o RecometryConfig"
  baseUrl :: string
  websocket :: "('h, 'o) HubConnection"

text \<open>
  What the collaborators answer. \<open>hub_state\<close> is the getter \<^verbatim>\<open>websocket.state\<close>;
  \<open>hub_start\<close>, \<open>hub_stop\<close> and \<open>hub_invoke\<close> settle and leave a new transport state;
  \<open>fetch_op\<close> and \<open>response_json\<close> (\<^verbatim>\<open>response.json()\<close>) settle and leave a new
  outside; \<open>JSON_stringify\<close> is total on the payloads of this model. \<open>'r\<close> is the
  \<^verbatim>\<open>Response\<close> object and \<open>'j\<close> the parsed body.
\<close>

record ('h, 'o, 'r, 'j) Collaborators =
  hub_state :: "'h \<Rightarrow> HubConnectionState"
  hub_start :: "'h \<Rightarrow> (error + unit) \<times> 'h"
  hub_stop :: "'h \<Rightarrow> (error + unit) \<times> 'h"
  hub_invoke :: "string \<Rightarrow> RecometryEvent list \<Rightarrow> 'h \<Rightarrow> (error + unit) \<times> 'h"
  JSON_stringify :: "payload \<Rightarrow> string"
  fetch_op :: "Request \<Rightarrow> 'o \<Rightarrow> (error + 'r) \<times> 'o"
  response_json :: "'r \<Rightarrow> 'o \<Rightarrow> (error + 'j) \<times> 'o"


section \<open>Control flow: sequencing, \<^verbatim>\<open>try\<close>/\<^verbatim>\<open>catch\<close>\<close>

definition resolve :: "'a \<Rightarrow> ('a, 'h, 'o) async" where
  "resolve x w = (Inr x, w)"

text \<open>\<^verbatim>\<open>await m; k\<close> (and \<^verbatim>\<open>m.then(k)\<close>): a rejection of \<open>m\<close> skips \<open>k\<close>.\<close>

definition and_then :: "('a, 'h, 'o) async \<Rightarrow> ('a \<Rightarrow> ('b, 'h, 'o) async) \<Rightarrow> ('b, 'h, 'o) async" where
  "and_then m k w = (case m w of (Inl e, w') \<Rightarrow> (Inl e, w') | (Inr x, w') \<Rightarrow> k x w')"

text \<open>\<^verbatim>\<open>try { m } catch (err) { h }\<close>.\<close>

definition try_catch :: "('a, 'h, 'o) async \<Rightarrow> (error \<Rightarrow> ('a, 'h, 'o) async) \<Rightarrow> ('a, 'h, 'o) async" where
  "try_catch m h w = (case m w of (Inl e, w') \<Rightarrow> h e w' | (Inr x, w') \<Rightarrow> (Inr x, w'))"

definition emit :: "event \<Rightarrow> (unit, 'h, 'o) async" where
  "emit ev w = (Inr (), w\<lparr>trace := trace w @ [ev]\<rparr>)"

definition console_log :: "string list \<Rightarrow> error \<Rightarrow> (unit, 'h, 'o) async" where
  "console_log labels err = emit (ConsoleLog labels err)"

definition console_error :: "string list \<Rightarrow> error \<Rightarrow> (unit, 'h, 'o) async" where
  "console_error labels err = emit (ConsoleError labels err)"


section \<open>Calls on the collaborators\<close>

definition websocket_start :: "('h, 'o, 'r, 'j) Collaborators \<Rightarrow> (unit, 'h, 'o) async" where
  "websocket_start ops w =
     (case hub_start ops (hub w) of
        (r, h') \<Rightarrow> (r, w\<lparr>hub := h', trace := trace w @ [HubStart]\<rparr>))"

definition websocket_stop :: "('h, 'o, 'r, 'j) Collaborators \<Rightarrow> (unit, 'h, 'o) async" where
  "websocket_stop ops w =
     (case hub_stop ops (hub w) of
        (r, h') \<Rightarrow> (r, w\<lparr>hub := h', trace := trace w @ [HubStop]\<rparr>))"

definition websocket_invoke ::
  "('h, 'o, 'r, 'j) Collaborators \<Rightarrow> string \<Rightarrow> RecometryEvent list \<Rightarrow> (unit, 'h, 'o) async" where
  "websocket_invoke ops name args w =
     (case hub_invoke ops name args (hub w) of
        (r, h') \<Rightarrow> (r, w\<lparr>hub := h', trace := trace w @ [HubInvoke name args]\<rparr>))"

definition fetch :: "('h, 'o, 'r, 'j) Collaborators \<Rightarrow> Request \<Rightarrow> ('r, 'h, 'o) async" where
  "fetch ops req w =
     (case fetch_op ops req (outside w) of
        (r, out') \<Rightarrow> (r, w\<lparr>outside := out', trace := trace w @ [Fetch req]\<rparr>))"

definition json :: "('h, 'o, 'r, 'j) Collaborators \<Rightarrow> 'r \<Rightarrow> ('j, 'h, 'o) async" where
  "json ops response w =
     (case response_json ops response (outside w) of
        (r, out') \<Rightarrow> (r, w\<lparr>outside := out', trace := trace w @ [ResponseJson]\<rparr>))"

text \<open>\<^verbatim>\<open>config.onError(err)\<close>: one call of the host's callback.\<close>

definition call_onError ::
  "(error \<Rightarrow> 'o \<Rightarrow> (error + unit) \<times> 'o) \<Rightarrow> error \<Rightarrow> (unit, 'h, 'o) async" where
  "call_onError f err w =
     (case f err (outside w) of
        (r, out') \<Rightarrow> (r, w\<lparr>outside := out', trace := trace w @ [OnError err]\<rparr>))"

text \<open>A template literal prints an absent value as \<^verbatim>\<open>undefined\<close>.\<close>

definition template_string :: "string option \<Rightarrow> string" where
  "template_string v = (case v of None \<Rightarrow> ''undefined'' | Some s \<Rightarrow> s)"


section \<open>The class \<^verbatim>\<open>Recometry\<close>\<close>

text \<open>
  The handler given to \<^verbatim>\<open>websocket.on("error", ...)\<close>:
  \<^verbatim>\<open>async (err) => { console.log("error", err); if (config.onError) await config.onError(err); }\<close>
\<close>

definition error_handler :: "'o RecometryConfig \<Rightarrow> error \<Rightarrow> (unit, 'h, 'o) async" where
  "error_handler config err =
     and_then (console_log [''error''] err) (\<lambda>_.
       case onError config of
         None \<Rightarrow> resolve ()
       | Some f \<Rightarrow> call_onError f err)"

text \<open>
  \<^verbatim>\<open>private async connect()\<close>, lines 80 to 89: inside the \<^verbatim>\<open>try\<close>, return when the
  state is \<^verbatim>\<open>Connected\<close>, else \<^verbatim>\<open>await this.websocket.start()\<close>; the \<^verbatim>\<open>catch\<close> logs.
\<close>

definition connect :: "('h, 'o, 'r, 'j) Collaborators \<Rightarrow> ('h, 'o) Recometry \<Rightarrow> (unit, 'h, 'o) async" where
  "connect ops this =
     and_then (emit (Call ''connect'')) (\<lambda>_.
       try_catch
         (\<lambda>w. if hub_state ops (hub w) = Connected then resolve () w
              else websocket_start ops w)
         (\<lambda>err. console_error [''Connect failed:''] err))"

text \<open>\<^verbatim>\<open>private async disconnect()\<close>, lines 91 to 100.\<close>

definition disconnect :: "('h, 'o, 'r, 'j) Collaborators \<Rightarrow> ('h, 'o) Recometry \<Rightarrow> (unit, 'h, 'o) async" where
  "disconnect ops this =
     and_then (emit (Call ''disconnect'')) (\<lambda>_.
       try_catch
         (\<lambda>w. if hub_state ops (hub w) \<noteq> Disconnected then websocket_stop ops w
              else resolve () w)
         (\<lambda>err. console_error [] err))"

text \<open>\<^verbatim>\<open>private async reconnect()\<close>, lines 102 to 115.\<close>

definition reconnect :: "('h, 'o, 'r, 'j) Collaborators \<Rightarrow> ('h, 'o) Recometry \<Rightarrow> (unit, 'h, 'o) async" where
  "reconnect ops this =
     and_then (emit (Call ''reconnect'')) (\<lambda>_.
       try_catch
         (\<lambda>w. if hub_state ops (hub w) = Connected then resolve () w
              else and_then (disconnect ops this) (\<lambda>_. connect ops this) w)
         (\<lambda>err. console_error [] err))"

text \<open>\<^verbatim>\<open>async collect(event)\<close>, lines 120 to 127.\<close>

definition collect ::
  "('h, 'o, 'r, 'j) Collaborators \<Rightarrow> ('h, 'o) Recometry \<Rightarrow> RecometryEvent \<Rightarrow> (unit, 'h, 'o) async" where
  "collect ops this event =
     try_catch
       (and_then (reconnect ops this) (\<lambda>_. websocket_invoke ops ''collect'' [event]))
       (\<lambda>err. console_error [''Collect failed:''] err)"

text \<open>The request \<^verbatim>\<open>recommend\<close> hands to \<^verbatim>\<open>fetch\<close>, lines 133 to 140.\<close>

definition recommend_request ::
  "('h, 'o, 'r, 'j) Collaborators \<Rightarrow> ('h, 'o) Recometry \<Rightarrow> RecommendationRequest \<Rightarrow> Request" where
  "recommend_request ops this payload =
     \<lparr>req_url = baseUrl this @ ''/api/v1/ml/recommend'',
      req_method = ''POST'',
      req_headers =
        [(''Content-Type'', ''application/json''),
         (''Authorization'', ''Bearer '' @ template_string (apiKey (configuration this)))],
      req_body = JSON_stringify ops (RecommendPayload payload)\<rparr>"

text \<open>
  \<^verbatim>\<open>async recommend(payload)\<close>, lines 132 to 143: \<^verbatim>\<open>fetch\<close>, then \<^verbatim>\<open>response.json()\<close>,
  then a type cast, which is the identity at run time. There is no \<^verbatim>\<open>try\<close>.
\<close>

definition recommend ::
  "('h, 'o, 'r, 'j) Collaborators \<Rightarrow> ('h, 'o) Recometry \<Rightarrow> RecommendationRequest \<Rightarrow> ('j, 'h, 'o) async" where
  "recommend ops this payload =
     and_then
       (and_then (fetch ops (recommend_request ops this payload)) (\<lambda>response. json ops response))
       (\<lambda>response. resolve response)"

text \<open>The request \<^verbatim>\<open>predict\<close> hands to \<^verbatim>\<open>fetch\<close>, lines 149 to 156.\<close>

definition predict_request ::
  "('h, 'o, 'r, 'j) Collaborators \<Rightarrow> ('h, 'o) Recometry \<Rightarrow> PredictionRequest \<Rightarrow> Request" where
  "predict_request ops this payload =
     \<lparr>req_url = baseUrl this @ ''/api/v1/ml/predict'',
      req_method = ''POST'',
      req_headers =
        [(''Content-Type'', ''application/json''),
         (''Authorization'', ''Bearer '' @ template_string (apiKey (configuration this)))],
      req_body = JSON_stringify ops (PredictPayload payload)\<rparr>"

text \<open>\<^verbatim>\<open>async predict(payload)\<close>, lines 148 to 159.\<close>

definition predict ::
  "('h, 'o, 'r, 'j) Collaborators \<Rightarrow> ('h, 'o) Recometry \<Rightarrow> PredictionRequest \<Rightarrow> ('j, 'h, 'o) async" where
  "predict ops this payload =
     and_then
       (and_then (fetch ops (predict_request ops this payload)) (\<lambda>response. json ops response))
       (\<lambda>response. resolve response)"

text \<open>
  The constructor, lines 53 to 78. \<^verbatim>\<open>!config\<close> holds of an absent configuration
  (\<open>None\<close>: \<^verbatim>\<open>null\<close> or \<^verbatim>\<open>undefined\<close>) and of no object. The base address is chosen by
  the strict comparison \<^verbatim>\<open>config.env === 'live'\<close>. The builder chain yields the handle,
  \<^verbatim>\<open>on\<close> appends the error handler, and \<^verbatim>\<open>this.connect()\<close> is called without
  \<^verbatim>\<open>await\<close>: its settlement is dropped and the constructor returns the object. The
  world returned is the one \<^verbatim>\<open>connect\<close> leaves when it has settled; how a pending
  \<^verbatim>\<open>connect\<close> interleaves with later calls is outside this model.
\<close>

definition Recometry_constructor ::
  "('h, 'o, 'r, 'j) Collaborators \<Rightarrow> 'o RecometryConfig option \<Rightarrow> (('h, 'o) Recometry, 'h, 'o) async" where
  "Recometry_constructor ops config w =
     (case config of
        None \<Rightarrow> (Inl (Error ''config is required''), w)
      | Some c \<Rightarrow>
          let base = (if env c = Some ''live'' then ''https://api.recometry.com''
                      else ''https://localhost:5001'');
              built = \<lparr>url = base @ ''/metrics'',
                       accessTokenFactory = apiKey c,
                       skipNegotiation = True,
                       transport = WebSockets,
                       automaticReconnect = True,
                       methods = []\<rparr>;
              w1 = w\<lparr>trace := trace w @ [HubBuild (base @ ''/metrics'')]\<rparr>;
              ws = built\<lparr>methods := methods built @ [(''error'', error_handler c)]\<rparr>;
              w2 = w1\<lparr>trace := trace w1 @ [HubOn ''error'']\<rparr>;
              this = \<lparr>configuration = c, baseUrl = base, websocket = ws\<rparr>
          in (Inr this, snd (connect ops this w2)))"


section \<open>Reading a trace\<close>

text \<open>The events a computation added, given the world before and the world after.\<close>

definition events_since :: "('h, 'o) world \<Rightarrow> ('h, 'o) world \<Rightarrow> event list" where
  "events_since w w' = drop (length (trace w)) (trace w')"

fun is_method_call :: "event \<Rightarrow> bool" where
  "is_method_call (Call _) = True"
| "is_method_call _ = False"

fun is_hub_event :: "event \<Rightarrow> bool" where
  "is_hub_event (HubBuild _) = True"
| "is_hub_event (HubOn _) = True"
| "is_hub_event HubStart = True"
| "is_hub_event HubStop = True"
| "is_hub_event (HubInvoke _ _) = True"
| "is_hub_event _ = False"

fun is_invoke :: "event \<Rightarrow> bool" where
  "is_invoke (HubInvoke _ _) = True"
| "is_invoke _ = False"

fun is_console :: "event \<Rightarrow> bool" where
  "is_console (ConsoleLog _ _) = True"
| "is_console (ConsoleError _ _) = True"
| "is_console _ = False"


section \<open>A simulated transport and endpoint, to run the model\<close>

text \<open>
  The transport state is the connection state and whether the server can be reached:
  \<open>start\<close> connects when it can and rejects otherwise, \<open>stop\<close> disconnects, \<open>invoke\<close>
  rejects unless connected. The endpoint rejects a request to the production address
  and answers any other with a body that is JSON for \<^verbatim>\<open>/recommend\<close> only. The outside
  is the list of errors the host's callback has seen.
\<close>

definition sim_start :: "HubConnectionState \<times> bool \<Rightarrow> (error + unit) \<times> (HubConnectionState \<times> bool)" where
  "sim_start h = (if snd h then (Inr (), (Connected, True))
                  else (Inl (Error ''no route to host''), (Disconnected, False)))"

definition sim_stop :: "HubConnectionState \<times> bool \<Rightarrow> (error + unit) \<times> (HubConnectionState \<times> bool)" where
  "sim_stop h = (Inr (), (Disconnected, snd h))"

definition sim_invoke ::
  "string \<Rightarrow> RecometryEvent list \<Rightarrow> HubConnectionState \<times> bool \<Rightarrow> (error + unit) \<times> (HubConnectionState \<times> bool)" where
  "sim_invoke name args h = (if fst h = Connected then (Inr (), h)
                             else (Inl (Error ''not connected''), h))"

definition sim_fetch :: "Request \<Rightarrow> error list \<Rightarrow> (error + string) \<times> error list" where
  "sim_fetch req out =
     (if take 25 (req_url req) = ''https://api.recometry.com'' then (Inl (Error ''Failed to fetch''), out)
      else if req_url req = ''https://localhost:5001/api/v1/ml/recommend'' then (Inr ''[]'', out)
      else (Inr ''<html>'', out))"

definition sim_json :: "string \<Rightarrow> error list \<Rightarrow> (error + string) \<times> error list" where
  "sim_json body out = (if body = ''[]'' then (Inr body, out)
                        else (Inl (Error ''Unexpected token''), out))"

definition sim_ops :: "(HubConnectionState \<times> bool, error list, string, string) Collaborators" where
  "sim_ops = \<lparr>hub_state = fst, hub_start = sim_start, hub_stop = sim_stop,
              hub_invoke = sim_invoke, JSON_stringify = (\<lambda>_. ''{}''),
              fetch_op = sim_fetch, response_json = sim_json\<rparr>"

definition sim_onError :: "error \<Rightarrow> error list \<Rightarrow> (error + unit) \<times> error list" where
  "sim_onError err out = (Inr (), out @ [err])"

definition sim_world :: "HubConnectionState \<Rightarrow> bool \<Rightarrow> (HubConnectionState \<times> bool, error list) world" where
  "sim_world s reachable = \<lparr>hub = (s, reachable), outside = [], trace = []\<rparr>"

definition sim_config :: "string option \<Rightarrow> string option \<Rightarrow> error list RecometryConfig" where
  "sim_config key e = \<lparr>apiKey = key, env = e, onError = Some sim_onError\<rparr>"

definition sim_this :: "string \<Rightarrow> (HubConnectionState \<times> bool, error list) Recometry" where
  "sim_this base =
     \<lparr>configuration = sim_config (Some ''k'') (Some ''sandbox''),
      baseUrl = base,
      websocket = \<lparr>url = base @ ''/metrics'', accessTokenFactory = Some ''k'',
                   skipNegotiation = True, transport = WebSockets, automaticReconnect = True,
                   methods = [(''error'', error_handler (sim_config (Some ''k'') (Some ''sandbox'')))]\<rparr>\<rparr>"

definition sim_event :: RecometryEvent where
  "sim_event = \<lparr>ev_id = ''1'', ev_type = click, ev_data = [], ev_productId = 1, ev_userId = ''u''\<rparr>"


section \<open>What each method does to the world\<close>

lemmas model_defs = resolve_def and_then_def try_catch_def emit_def console_log_def console_error_def
  websocket_start_def websocket_stop_def websocket_invoke_def fetch_def json_def call_onError_def

lemma connect_eq:
  "connect ops this w =
     (Inr (),
      if hub_state ops (hub w) = Connected
      then w\<lparr>trace := trace w @ [Call ''connect'']\<rparr>
      else w\<lparr>hub := snd (hub_start ops (hub w)),
             trace := trace w @ [Call ''connect'', HubStart] @
               (case fst (hub_start ops (hub w)) of
                  Inl e \<Rightarrow> [ConsoleError [''Connect failed:''] e]
                | Inr _ \<Rightarrow> [])\<rparr>)"
  by (simp add: connect_def model_defs split: prod.splits sum.splits)

lemma disconnect_eq:
  "disconnect ops this w =
     (Inr (),
      if hub_state ops (hub w) = Disconnected
      then w\<lparr>trace := trace w @ [Call ''disconnect'']\<rparr>
      else w\<lparr>hub := snd (hub_stop ops (hub w)),
             trace := trace w @ [Call ''disconnect'', HubStop] @
               (case fst (hub_stop ops (hub w)) of
                  Inl e \<Rightarrow> [ConsoleError [] e]
                | Inr _ \<Rightarrow> [])\<rparr>)"
  by (simp add: disconnect_def model_defs split: prod.splits sum.splits)

lemma reconnect_eq:
  "reconnect ops this w =
     (Inr (),
      if hub_state ops (hub w) = Connected
      then w\<lparr>trace := trace w @ [Call ''reconnect'']\<rparr>
      else snd (connect ops this (snd (disconnect ops this (w\<lparr>trace := trace w @ [Call ''reconnect'']\<rparr>)))))"
  by (simp add: reconnect_def and_then_def try_catch_def emit_def resolve_def connect_eq disconnect_eq)


lemma collect_eq:
  "collect ops this ev w =
     (Inr (),
      (snd (reconnect ops this w))
        \<lparr>hub := snd (hub_invoke ops ''collect'' [ev] (hub (snd (reconnect ops this w)))),
         trace := trace (snd (reconnect ops this w)) @
           HubInvoke ''collect'' [ev] #
           (case fst (hub_invoke ops ''collect'' [ev] (hub (snd (reconnect ops this w)))) of
              Inl e \<Rightarrow> [ConsoleError [''Collect failed:''] e]
            | Inr _ \<Rightarrow> [])\<rparr>)"
proof -
  have r: "reconnect ops this w = (Inr (), snd (reconnect ops this w))"
    by (simp add: reconnect_eq)
  show ?thesis
    unfolding collect_def and_then_def try_catch_def
    by (subst r, subst r)
       (simp add: websocket_invoke_def console_error_def emit_def split: prod.splits sum.splits)
qed

lemma reconnect_events:
  "events_since w (snd (reconnect ops this w)) =
     Call ''reconnect'' #
     (if hub_state ops (hub w) = Connected then []
      else events_since (w\<lparr>trace := trace w @ [Call ''reconnect'']\<rparr>)
             (snd (connect ops this (snd (disconnect ops this (w\<lparr>trace := trace w @ [Call ''reconnect'']\<rparr>))))))"
  by (simp add: reconnect_eq connect_eq disconnect_eq events_since_def)

lemma recommend_eq:
  "recommend ops this p w =
     (case fetch_op ops (recommend_request ops this p) (outside w) of
        (Inl e, out1) \<Rightarrow>
          (Inl e, w\<lparr>outside := out1, trace := trace w @ [Fetch (recommend_request ops this p)]\<rparr>)
      | (Inr response, out1) \<Rightarrow>
          (fst (response_json ops response out1),
           w\<lparr>outside := snd (response_json ops response out1),
             trace := trace w @ [Fetch (recommend_request ops this p), ResponseJson]\<rparr>))"
  by (simp add: recommend_def model_defs split: prod.splits sum.splits)

lemma predict_eq:
  "predict ops this p w =
     (case fetch_op ops (predict_request ops this p) (outside w) of
        (Inl e, out1) \<Rightarrow>
          (Inl e, w\<lparr>outside := out1, trace := trace w @ [Fetch (predict_request ops this p)]\<rparr>)
      | (Inr response, out1) \<Rightarrow>
          (fst (response_json ops response out1),
           w\<lparr>outside := snd (response_json ops response out1),
             trace := trace w @ [Fetch (predict_request ops this p), ResponseJson]\<rparr>))"
  by (simp add: predict_def model_defs split: prod.splits sum.splits)

lemma error_handler_eq:
  "error_handler c err v =
     (case onError c of
        None \<Rightarrow> (Inr (), v\<lparr>trace := trace v @ [ConsoleLog [''error''] err]\<rparr>)
      | Some f \<Rightarrow>
          (fst (f err (outside v)),
           v\<lparr>outside := snd (f err (outside v)),
             trace := trace v @ [ConsoleLog [''error''] err, OnError err]\<rparr>))"
  by (simp add: error_handler_def model_defs split: prod.splits sum.splits option.splits)


lemma constructor_Some:
  "fst (Recometry_constructor ops (Some c) w) =
     Inr \<lparr>configuration = c,
          baseUrl = (if env c = Some ''live'' then ''https://api.recometry.com''
                     else ''https://localhost:5001''),
          websocket =
            \<lparr>url = (if env c = Some ''live'' then ''https://api.recometry.com''
                     else ''https://localhost:5001'') @ ''/metrics'',
             accessTokenFactory = apiKey c, skipNegotiation = True, transport = WebSockets,
             automaticReconnect = True, methods = [(''error'', error_handler c)]\<rparr>\<rparr>"
  by (simp add: Recometry_constructor_def Let_def)

lemma constructor_None:
  "Recometry_constructor ops None w = (Inl (Error ''config is required''), w)"
  by (simp add: Recometry_constructor_def)

lemma constructor_world:
  "snd (Recometry_constructor ops (Some c) w) =
     snd (connect ops (projr (fst (Recometry_constructor ops (Some c) w)))
            (w\<lparr>trace := trace w @
                 [HubBuild ((if env c = Some ''live'' then ''https://api.recometry.com''
                             else ''https://localhost:5001'') @ ''/metrics''),
                  HubOn ''error'']\<rparr>))"
  by (simp add: Recometry_constructor_def Let_def connect_eq)

lemma constructor_result:
  "Recometry_constructor ops (Some c) w = (Inr this, w') \<Longrightarrow>
   this = \<lparr>configuration = c,
           baseUrl = (if env c = Some ''live'' then ''https://api.recometry.com''
                      else ''https://localhost:5001''),
           websocket =
             \<lparr>url = (if env c = Some ''live'' then ''https://api.recometry.com''
                      else ''https://localhost:5001'') @ ''/metrics'',
              accessTokenFactory = apiKey c, skipNegotiation = True, transport = WebSockets,
              automaticReconnect = True, methods = [(''error'', error_handler c)]\<rparr>\<rparr>"
  using constructor_Some [of ops c w] by simp

lemma recommend_first_event:
  "take 1 (events_since v (snd (recommend ops this p v))) = [Fetch (recommend_request ops this p)]"
  by (simp add: recommend_eq events_since_def split: prod.splits sum.splits)

lemma predict_first_event:
  "take 1 (events_since v (snd (predict ops this p v))) = [Fetch (predict_request ops this p)]"
  by (simp add: predict_eq events_since_def split: prod.splits sum.splits)


section \<open>The claims of the specification\<close>

text \<open>
  Claim C6. \<^verbatim>\<open>connect()\<close> always resolves. When the state is \<^verbatim>\<open>Connected\<close> it returns
  at once: the channel is not started and nothing changes but the mark of the call.
  In every other state it calls \<^verbatim>\<open>start\<close> exactly once; the transport is left as
  \<^verbatim>\<open>start\<close> leaves it, and a rejection of \<^verbatim>\<open>start\<close> is logged with
  \<^verbatim>\<open>console.error("Connect failed:", err)\<close> and goes no further.
\<close>

theorem connect_starts_unless_connected_and_resolves:
  "fst (connect ops this w) = Inr () \<and>
   (if hub_state ops (hub w) = Connected
    then snd (connect ops this w) = w\<lparr>trace := trace w @ [Call ''connect'']\<rparr>
    else events_since w (snd (connect ops this w)) =
           Call ''connect'' # HubStart #
           (case fst (hub_start ops (hub w)) of
              Inl e \<Rightarrow> [ConsoleError [''Connect failed:''] e]
            | Inr _ \<Rightarrow> []) \<and>
         hub (snd (connect ops this w)) = snd (hub_start ops (hub w)) \<and>
         outside (snd (connect ops this w)) = outside w)"
  by (simp add: connect_eq events_since_def)

theorem connect_starts_unless_connected_and_resolves_witness:
  "snd (connect sim_ops (sim_this ''b'') (sim_world Connected True)) =
     (sim_world Connected True)\<lparr>trace := trace (sim_world Connected True) @ [Call ''connect'']\<rparr> \<and>
   fst (connect sim_ops (sim_this ''b'') (sim_world Disconnected False)) = Inr () \<and>
   events_since (sim_world Disconnected False)
       (snd (connect sim_ops (sim_this ''b'') (sim_world Disconnected False))) =
     [Call ''connect'', HubStart, ConsoleError [''Connect failed:''] (Error ''no route to host'')]"
proof -
  have up: "hub_state sim_ops (hub (sim_world Connected True)) = Connected"
    by (simp add: sim_ops_def sim_world_def)
  have down: "hub_state sim_ops (hub (sim_world Disconnected False)) \<noteq> Connected"
    by (simp add: sim_ops_def sim_world_def)
  have fails: "fst (hub_start sim_ops (hub (sim_world Disconnected False))) =
      Inl (Error ''no route to host'')"
    by (simp add: sim_ops_def sim_world_def sim_start_def)
  note a = connect_starts_unless_connected_and_resolves
             [of sim_ops "sim_this ''b''" "sim_world Connected True"]
  note b = connect_starts_unless_connected_and_resolves
             [of sim_ops "sim_this ''b''" "sim_world Disconnected False"]
  note a2 = a [THEN conjunct2, unfolded if_P [OF up]]
  note b1 = b [THEN conjunct1]
  note b2 = b [THEN conjunct2, unfolded if_not_P [OF down], THEN conjunct1, unfolded fails]
  from b2 have "events_since (sim_world Disconnected False)
       (snd (connect sim_ops (sim_this ''b'') (sim_world Disconnected False))) =
     [Call ''connect'', HubStart, ConsoleError [''Connect failed:''] (Error ''no route to host'')]"
    by simp
  with a2 b1 show ?thesis by blast
qed

text \<open>
  Claim C2. \<^verbatim>\<open>reconnect()\<close> always resolves. When the state is \<^verbatim>\<open>Connected\<close> it
  calls neither \<^verbatim>\<open>disconnect\<close> nor \<^verbatim>\<open>connect\<close> and leaves the world as it is. In
  every other state (\<^verbatim>\<open>Disconnected\<close>, \<^verbatim>\<open>Connecting\<close>, \<^verbatim>\<open>Disconnecting\<close>,
  \<^verbatim>\<open>Reconnecting\<close>) it calls \<^verbatim>\<open>disconnect\<close> exactly once and then \<^verbatim>\<open>connect\<close>
  exactly once, whatever the transport answers, and its effect is the effect of these
  two calls in this order.
\<close>

theorem reconnect_calls_disconnect_then_connect_unless_connected:
  "fst (reconnect ops this w) = Inr () \<and>
   (if hub_state ops (hub w) = Connected
    then snd (reconnect ops this w) = w\<lparr>trace := trace w @ [Call ''reconnect'']\<rparr>
    else snd (reconnect ops this w) =
           snd (connect ops this
                  (snd (disconnect ops this (w\<lparr>trace := trace w @ [Call ''reconnect'']\<rparr>)))) \<and>
         filter is_method_call (events_since w (snd (reconnect ops this w))) =
           [Call ''reconnect'', Call ''disconnect'', Call ''connect''])"
  apply (simp add: reconnect_eq)
  apply (simp add: connect_eq disconnect_eq events_since_def split: sum.splits)
  done

theorem reconnect_calls_disconnect_then_connect_unless_connected_witness:
  "snd (reconnect sim_ops (sim_this ''b'') (sim_world Connected True)) =
     (sim_world Connected True)\<lparr>trace := trace (sim_world Connected True) @ [Call ''reconnect'']\<rparr> \<and>
   fst (reconnect sim_ops (sim_this ''b'') (sim_world Reconnecting False)) = Inr () \<and>
   filter is_method_call
       (events_since (sim_world Reconnecting False)
          (snd (reconnect sim_ops (sim_this ''b'') (sim_world Reconnecting False)))) =
     [Call ''reconnect'', Call ''disconnect'', Call ''connect'']"
proof -
  have up: "hub_state sim_ops (hub (sim_world Connected True)) = Connected"
    by (simp add: sim_ops_def sim_world_def)
  have down: "hub_state sim_ops (hub (sim_world Reconnecting False)) \<noteq> Connected"
    by (simp add: sim_ops_def sim_world_def)
  note a = reconnect_calls_disconnect_then_connect_unless_connected
             [of sim_ops "sim_this ''b''" "sim_world Connected True"]
  note b = reconnect_calls_disconnect_then_connect_unless_connected
             [of sim_ops "sim_this ''b''" "sim_world Reconnecting False"]
  note a2 = a [THEN conjunct2, unfolded if_P [OF up]]
  note b1 = b [THEN conjunct1]
  note b2 = b [THEN conjunct2, unfolded if_not_P [OF down], THEN conjunct2]
  from a2 b1 b2 show ?thesis by blast
qed

text \<open>
  Claim C1. For every event and every transport, \<^verbatim>\<open>collect(event)\<close> resolves. It
  first runs \<^verbatim>\<open>reconnect()\<close> to its end (the first thing that happens is the call of
  \<^verbatim>\<open>reconnect\<close>, and nothing is invoked on the channel before \<^verbatim>\<open>reconnect\<close> has
  settled), then invokes \<^verbatim>\<open>collect\<close> on the channel once with the event as the only
  argument, in the world \<^verbatim>\<open>reconnect\<close> left; a rejection of the invoke is logged
  with \<^verbatim>\<open>console.error("Collect failed:", err)\<close> and goes no further.
\<close>

theorem collect_reconnects_then_invokes_and_resolves:
  "fst (collect ops this ev w) = Inr () \<and>
   take 1 (events_since w (snd (reconnect ops this w))) = [Call ''reconnect''] \<and>
   filter is_invoke (events_since w (snd (reconnect ops this w))) = [] \<and>
   snd (collect ops this ev w) =
     (snd (reconnect ops this w))
       \<lparr>hub := snd (hub_invoke ops ''collect'' [ev] (hub (snd (reconnect ops this w)))),
        trace := trace (snd (reconnect ops this w)) @
          HubInvoke ''collect'' [ev] #
          (case fst (hub_invoke ops ''collect'' [ev] (hub (snd (reconnect ops this w)))) of
             Inl e \<Rightarrow> [ConsoleError [''Collect failed:''] e]
           | Inr _ \<Rightarrow> [])\<rparr>"
proof -
  have "fst (collect ops this ev w) = Inr ()"
    by (simp add: collect_eq)
  moreover have "take 1 (events_since w (snd (reconnect ops this w))) = [Call ''reconnect'']"
    by (simp add: reconnect_events)
  moreover have "filter is_invoke (events_since w (snd (reconnect ops this w))) = []"
    by (simp add: reconnect_eq connect_eq disconnect_eq events_since_def split: sum.splits)
  moreover note collect_eq [of ops this ev w]
  ultimately show ?thesis by simp
qed

theorem collect_reconnects_then_invokes_and_resolves_witness:
  "collect sim_ops (sim_this ''b'') sim_event (sim_world Reconnecting False) =
     (Inr (),
      \<lparr>hub = (Disconnected, False), outside = [],
       trace = [Call ''reconnect'', Call ''disconnect'', HubStop, Call ''connect'', HubStart,
                ConsoleError [''Connect failed:''] (Error ''no route to host''),
                HubInvoke ''collect'' [sim_event],
                ConsoleError [''Collect failed:''] (Error ''not connected'')]\<rparr>)"
proof -
  have r: "snd (reconnect sim_ops (sim_this ''b'') (sim_world Reconnecting False)) =
      \<lparr>hub = (Disconnected, False), outside = [],
       trace = [Call ''reconnect'', Call ''disconnect'', HubStop, Call ''connect'', HubStart,
                ConsoleError [''Connect failed:''] (Error ''no route to host'')]\<rparr>"
    by (simp add: reconnect_eq connect_eq disconnect_eq sim_ops_def sim_start_def sim_stop_def
        sim_world_def)
  note t = collect_reconnects_then_invokes_and_resolves
             [of sim_ops "sim_this ''b''" sim_event "sim_world Reconnecting False"]
  note t1 = t [THEN conjunct1]
  note t4 = t [THEN conjunct2, THEN conjunct2, THEN conjunct2, unfolded r]
  have "snd (collect sim_ops (sim_this ''b'') sim_event (sim_world Reconnecting False)) =
      \<lparr>hub = (Disconnected, False), outside = [],
       trace = [Call ''reconnect'', Call ''disconnect'', HubStop, Call ''connect'', HubStart,
                ConsoleError [''Connect failed:''] (Error ''no route to host''),
                HubInvoke ''collect'' [sim_event],
                ConsoleError [''Collect failed:''] (Error ''not connected'')]\<rparr>"
    unfolding t4 by (simp add: sim_ops_def sim_invoke_def)
  with t1 show ?thesis by (simp add: prod_eq_iff)
qed

text \<open>
  Claim C8. Constructing with an absent configuration (\<^verbatim>\<open>null\<close> or \<^verbatim>\<open>undefined\<close>)
  throws \<^verbatim>\<open>Error("config is required")\<close> and leaves the world as it was: no channel
  is built, no handler is registered and no connection is attempted.
\<close>

theorem construction_without_configuration_fails_first:
  "fst (Recometry_constructor ops None w) = Inl (Error ''config is required'') \<and>
   snd (Recometry_constructor ops None w) = w \<and>
   events_since w (snd (Recometry_constructor ops None w)) = []"
  by (simp add: constructor_None events_since_def)

theorem construction_without_configuration_fails_first_witness:
  "Recometry_constructor sim_ops (None :: error list RecometryConfig option)
       (sim_world Disconnected True) =
     (Inl (Error ''config is required''), sim_world Disconnected True)"
  using construction_without_configuration_fails_first
          [of sim_ops "sim_world Disconnected True"]
  by (simp add: prod_eq_iff)

text \<open>
  Claim C3 as the specification states it (construction fails whenever the credential or
  the environment is absent) does not hold of the code: the constructor tests
  \<^verbatim>\<open>!config\<close> and nothing else. With a simulated transport, a configuration without
  credential, one without environment and one without both are accepted, and for the
  last the channel is built and started.
\<close>

theorem construction_with_absent_credential_or_environment_counterexample:
  "fst (Recometry_constructor sim_ops (Some \<lparr>apiKey = None, env = Some ''sandbox'', onError = None\<rparr>)
          (sim_world Disconnected True)) =
     Inr \<lparr>configuration = \<lparr>apiKey = None, env = Some ''sandbox'', onError = None\<rparr>,
          baseUrl = ''https://localhost:5001'',
          websocket = \<lparr>url = ''https://localhost:5001/metrics'', accessTokenFactory = None,
                       skipNegotiation = True, transport = WebSockets, automaticReconnect = True,
                       methods = [(''error'',
                         error_handler \<lparr>apiKey = None, env = Some ''sandbox'', onError = None\<rparr>)]\<rparr>\<rparr> \<and>
   \<not> isl (fst (Recometry_constructor sim_ops (Some \<lparr>apiKey = Some ''k'', env = None, onError = None\<rparr>)
          (sim_world Disconnected True))) \<and>
   trace (snd (Recometry_constructor sim_ops (Some \<lparr>apiKey = None, env = None, onError = None\<rparr>)
          (sim_world Disconnected True))) =
     [HubBuild ''https://localhost:5001/metrics'', HubOn ''error'', Call ''connect'', HubStart]"
  by (simp add: constructor_Some constructor_world connect_eq sim_ops_def sim_world_def sim_start_def)

text \<open>
  Claim C3, amended. Construction fails exactly when the configuration object itself is
  absent, and then before anything is built or attempted. A configuration object is accepted whatever its credential and environment
  hold, absent values included: the object keeps the configuration as given, the
  credential (absent or not) is what the channel's token factory returns, and
  \<^verbatim>\<open>connect()\<close> is called once.
\<close>

theorem construction_fails_only_without_configuration:
  "isl (fst (Recometry_constructor ops config w)) = (config = None) \<and>
   snd (Recometry_constructor ops None w) = w \<and>
   configuration (projr (fst (Recometry_constructor ops
       (Some \<lparr>apiKey = key, env = e, onError = cb\<rparr>) w))) = \<lparr>apiKey = key, env = e, onError = cb\<rparr> \<and>
   accessTokenFactory (websocket (projr (fst (Recometry_constructor ops
       (Some \<lparr>apiKey = key, env = e, onError = cb\<rparr>) w)))) = key \<and>
   filter is_method_call (events_since w (snd (Recometry_constructor ops
       (Some \<lparr>apiKey = key, env = e, onError = cb\<rparr>) w))) = [Call ''connect'']"
proof -
  have "isl (fst (Recometry_constructor ops config w)) = (config = None)"
    by (cases config) (simp_all add: constructor_None constructor_Some)
  moreover have "filter is_method_call (events_since w (snd (Recometry_constructor ops
       (Some \<lparr>apiKey = key, env = e, onError = cb\<rparr>) w))) = [Call ''connect'']"
    by (simp add: constructor_world connect_eq events_since_def split: sum.splits)
  ultimately show ?thesis
    by (simp add: constructor_Some constructor_None)
qed

theorem construction_fails_only_without_configuration_witness:
  "isl (fst (Recometry_constructor sim_ops (None :: error list RecometryConfig option)
          (sim_world Disconnected True))) \<and>
   \<not> isl (fst (Recometry_constructor sim_ops (Some \<lparr>apiKey = None, env = None, onError = None\<rparr>)
          (sim_world Disconnected True))) \<and>
   filter is_method_call (events_since (sim_world Disconnected True)
     (snd (Recometry_constructor sim_ops (Some \<lparr>apiKey = None, env = None, onError = None\<rparr>)
          (sim_world Disconnected True)))) = [Call ''connect'']"
  using construction_fails_only_without_configuration
          [of sim_ops None "sim_world Disconnected True" None None None]
        construction_fails_only_without_configuration
          [of sim_ops "Some \<lparr>apiKey = None, env = None, onError = None\<rparr>"
              "sim_world Disconnected True" None None None]
  by blast

text \<open>
  Claim C9. For every configuration whose \<^verbatim>\<open>env\<close> is anything but the string
  \<^verbatim>\<open>live\<close> (absent, empty, or any other string), construction succeeds, keeps the
  configuration as given, and the local development address is the base of the channel
  URL and of the URLs of \<^verbatim>\<open>recommend\<close> and \<^verbatim>\<open>predict\<close>.
\<close>

theorem environment_other_than_live_is_sandbox:
  assumes "env c \<noteq> Some ''live''"
  shows "\<exists>this. fst (Recometry_constructor ops (Some c) w) = Inr this \<and>
           configuration this = c \<and>
           baseUrl this = ''https://localhost:5001'' \<and>
           url (websocket this) = ''https://localhost:5001/metrics'' \<and>
           req_url (recommend_request ops this p) = ''https://localhost:5001/api/v1/ml/recommend'' \<and>
           req_url (predict_request ops this q) = ''https://localhost:5001/api/v1/ml/predict''"
  using assms by (simp add: constructor_Some recommend_request_def predict_request_def)

theorem environment_other_than_live_is_sandbox_witness:
  "(\<exists>this. fst (Recometry_constructor sim_ops (Some (sim_config (Some ''k'') None))
                 (sim_world Disconnected False)) = Inr this \<and>
           baseUrl this = ''https://localhost:5001'') \<and>
   (\<exists>this. fst (Recometry_constructor sim_ops (Some (sim_config (Some ''k'') (Some ''Live'')))
                 (sim_world Disconnected False)) = Inr this \<and>
           url (websocket this) = ''https://localhost:5001/metrics'')"
proof -
  have a: "env (sim_config (Some ''k'') None) \<noteq> Some ''live''"
    by (simp add: sim_config_def)
  have b: "env (sim_config (Some ''k'') (Some ''Live'')) \<noteq> Some ''live''"
    by (simp add: sim_config_def)
  from environment_other_than_live_is_sandbox [OF a, of sim_ops "sim_world Disconnected False"]
       environment_other_than_live_is_sandbox [OF b, of sim_ops "sim_world Disconnected False"]
  show ?thesis by blast
qed

text \<open>
  Claim C5. For every configuration the constructor accepts: with \<^verbatim>\<open>env\<close> equal to
  \<^verbatim>\<open>sandbox\<close> the base address is \<^verbatim>\<open>https://localhost:5001\<close>, with \<^verbatim>\<open>live\<close> it is
  \<^verbatim>\<open>https://api.recometry.com\<close>; the channel is built for \<^verbatim>\<open><base>/metrics\<close> (the
  handle's URL, and the first thing the constructor does), and the first thing
  \<^verbatim>\<open>recommend\<close> and \<^verbatim>\<open>predict\<close> do is a \<^verbatim>\<open>fetch\<close> of
  \<^verbatim>\<open><base>/api/v1/ml/recommend\<close> and \<^verbatim>\<open><base>/api/v1/ml/predict\<close>.
\<close>

theorem base_address_follows_environment:
  assumes "Recometry_constructor ops (Some c) w = (Inr this, w')"
  shows "(env c = Some ''sandbox'' \<longrightarrow> baseUrl this = ''https://localhost:5001'') \<and>
         (env c = Some ''live'' \<longrightarrow> baseUrl this = ''https://api.recometry.com'') \<and>
         url (websocket this) = baseUrl this @ ''/metrics'' \<and>
         take 1 (events_since w w') = [HubBuild (baseUrl this @ ''/metrics'')] \<and>
         req_url (recommend_request ops this p) = baseUrl this @ ''/api/v1/ml/recommend'' \<and>
         take 1 (events_since v (snd (recommend ops this p v))) = [Fetch (recommend_request ops this p)] \<and>
         req_url (predict_request ops this q) = baseUrl this @ ''/api/v1/ml/predict'' \<and>
         take 1 (events_since v (snd (predict ops this q v))) = [Fetch (predict_request ops this q)]"
proof -
  note this_eq = constructor_result [OF assms]
  have w': "w' = snd (Recometry_constructor ops (Some c) w)"
    using assms by simp
  have "take 1 (events_since w w') = [HubBuild (baseUrl this @ ''/metrics'')]"
    unfolding w' by (subst this_eq) (simp add: constructor_world connect_eq events_since_def)
  moreover have "(env c = Some ''sandbox'' \<longrightarrow> baseUrl this = ''https://localhost:5001'') \<and>
         (env c = Some ''live'' \<longrightarrow> baseUrl this = ''https://api.recometry.com'') \<and>
         url (websocket this) = baseUrl this @ ''/metrics''"
    by (subst this_eq)+ simp
  moreover have "req_url (recommend_request ops this p) = baseUrl this @ ''/api/v1/ml/recommend''"
    by (simp add: recommend_request_def)
  moreover have "req_url (predict_request ops this q) = baseUrl this @ ''/api/v1/ml/predict''"
    by (simp add: predict_request_def)
  moreover note recommend_first_event [of v ops this p] predict_first_event [of v ops this q]
  ultimately show ?thesis by blast
qed


theorem base_address_follows_environment_witness:
  "url (websocket (projr (fst (Recometry_constructor sim_ops
       (Some (sim_config (Some ''k'') (Some ''sandbox''))) (sim_world Disconnected True))))) =
     ''https://localhost:5001/metrics'' \<and>
   req_url (predict_request sim_ops (projr (fst (Recometry_constructor sim_ops
       (Some (sim_config (Some ''k'') (Some ''live''))) (sim_world Disconnected True))))
       \<lparr>pred_modelId = ''m'', pred_data = [], pred_limit = 3\<rparr>) =
     ''https://api.recometry.com/api/v1/ml/predict''"
proof -
  define s where "s = Recometry_constructor sim_ops
       (Some (sim_config (Some ''k'') (Some ''sandbox''))) (sim_world Disconnected True)"
  define l where "l = Recometry_constructor sim_ops
       (Some (sim_config (Some ''k'') (Some ''live''))) (sim_world Disconnected True)"
  have s: "Recometry_constructor sim_ops
       (Some (sim_config (Some ''k'') (Some ''sandbox''))) (sim_world Disconnected True) =
       (Inr (projr (fst s)), snd s)"
    by (simp add: s_def prod_eq_iff constructor_Some)
  have l: "Recometry_constructor sim_ops
       (Some (sim_config (Some ''k'') (Some ''live''))) (sim_world Disconnected True) =
       (Inr (projr (fst l)), snd l)"
    by (simp add: l_def prod_eq_iff constructor_Some)
  have es: "env (sim_config (Some ''k'') (Some ''sandbox'')) = Some ''sandbox''"
    by (simp add: sim_config_def)
  have el: "env (sim_config (Some ''k'') (Some ''live'')) = Some ''live''"
    by (simp add: sim_config_def)
  note ts = base_address_follows_environment [OF s]
  note tl = base_address_follows_environment
              [OF l, of "\<lparr>rec_modelId = ''m'', rec_userId = ''u'', rec_limit = 3\<rparr>" _
                 "\<lparr>pred_modelId = ''m'', pred_data = [], pred_limit = 3\<rparr>"]
  from ts es have "baseUrl (projr (fst s)) = ''https://localhost:5001''"
    by blast
  moreover from ts have "url (websocket (projr (fst s))) = baseUrl (projr (fst s)) @ ''/metrics''"
    by blast
  ultimately have a: "url (websocket (projr (fst s))) = ''https://localhost:5001/metrics''"
    by simp
  from tl el have "baseUrl (projr (fst l)) = ''https://api.recometry.com''"
    by blast
  moreover from tl have "req_url (predict_request sim_ops (projr (fst l))
       \<lparr>pred_modelId = ''m'', pred_data = [], pred_limit = 3\<rparr>) =
       baseUrl (projr (fst l)) @ ''/api/v1/ml/predict''"
    by blast
  ultimately have b: "req_url (predict_request sim_ops (projr (fst l))
       \<lparr>pred_modelId = ''m'', pred_data = [], pred_limit = 3\<rparr>) =
       ''https://api.recometry.com/api/v1/ml/predict''"
    by simp
  from a b show ?thesis unfolding s_def l_def by blast
qed

text \<open>
  Claim C7. The constructor registers exactly one handler, for the \<^verbatim>\<open>error\<close>
  notification. One run of that handler on an error value logs it and, when
  \<^verbatim>\<open>onError\<close> is configured, calls it exactly once with that same value; the handler
  settles as the callback settles (same outcome) and in the world the callback leaves,
  so it is not done before the callback is. Without a callback it logs and resolves.
  The asynchronous handler is modelled by its settlement; when the transport regains
  control while the handler is suspended is not part of the model.
\<close>

theorem error_notification_calls_callback_once_and_awaits_it:
  assumes "Recometry_constructor ops (Some c) w = (Inr this, w')"
  shows "methods (websocket this) = [(''error'', error_handler c)] \<and>
         filter (\<lambda>e. e = HubOn ''error'') (events_since w w') = [HubOn ''error''] \<and>
         error_handler c err v =
           (case onError c of
              None \<Rightarrow> (Inr (), v\<lparr>trace := trace v @ [ConsoleLog [''error''] err]\<rparr>)
            | Some f \<Rightarrow>
                (fst (f err (outside v)),
                 v\<lparr>outside := snd (f err (outside v)),
                   trace := trace v @ [ConsoleLog [''error''] err, OnError err]\<rparr>))"
proof -
  have w': "w' = snd (Recometry_constructor ops (Some c) w)"
    using assms by simp
  have "methods (websocket this) = [(''error'', error_handler c)]"
    by (subst constructor_result [OF assms]) simp
  moreover have "filter (\<lambda>e. e = HubOn ''error'') (events_since w w') = [HubOn ''error'']"
    unfolding w' by (simp add: constructor_world connect_eq events_since_def split: sum.splits)
  moreover note error_handler_eq [of c err v]
  ultimately show ?thesis by blast
qed

theorem error_notification_calls_callback_once_and_awaits_it_witness:
  "map fst (methods (websocket (projr (fst (Recometry_constructor sim_ops
       (Some (sim_config (Some ''k'') (Some ''sandbox''))) (sim_world Connected True)))))) = [''error''] \<and>
   error_handler (sim_config (Some ''k'') (Some ''sandbox'')) (Error ''boom'')
       (sim_world Connected True) =
     (Inr (), \<lparr>hub = (Connected, True), outside = [Error ''boom''],
               trace = [ConsoleLog [''error''] (Error ''boom''), OnError (Error ''boom'')]\<rparr>)"
proof -
  define s where "s = Recometry_constructor sim_ops
       (Some (sim_config (Some ''k'') (Some ''sandbox''))) (sim_world Connected True)"
  have s: "Recometry_constructor sim_ops
       (Some (sim_config (Some ''k'') (Some ''sandbox''))) (sim_world Connected True) =
       (Inr (projr (fst s)), snd s)"
    by (simp add: s_def prod_eq_iff constructor_Some)
  note t = error_notification_calls_callback_once_and_awaits_it
             [OF s, of "Error ''boom''" "sim_world Connected True"]
  have a: "map fst (methods (websocket (projr (fst s)))) = [''error'']"
    by (simp add: t [THEN conjunct1])
  have b: "error_handler (sim_config (Some ''k'') (Some ''sandbox'')) (Error ''boom'')
       (sim_world Connected True) =
     (Inr (), \<lparr>hub = (Connected, True), outside = [Error ''boom''],
               trace = [ConsoleLog [''error''] (Error ''boom''), OnError (Error ''boom'')]\<rparr>)"
    unfolding t [THEN conjunct2, THEN conjunct2]
    by (simp add: sim_config_def sim_onError_def sim_world_def)
  from a b show ?thesis unfolding s_def by blast
qed

text \<open>
  Claim C4. For every request, \<^verbatim>\<open>recommend\<close> and \<^verbatim>\<open>predict\<close> settle as follows: a
  rejection of \<^verbatim>\<open>fetch\<close> is the rejection of the call, with the same error value;
  otherwise the call settles exactly as \<^verbatim>\<open>response.json()\<close> does, so a body that is
  not JSON rejects the call. Neither operation logs anything: no error is caught.
\<close>

theorem recommend_and_predict_propagate_rejections:
  "fst (recommend ops this p w) =
     (case fetch_op ops (recommend_request ops this p) (outside w) of
        (Inl e, out1) \<Rightarrow> Inl e
      | (Inr response, out1) \<Rightarrow> fst (response_json ops response out1)) \<and>
   filter is_console (events_since w (snd (recommend ops this p w))) = [] \<and>
   fst (predict ops this q w) =
     (case fetch_op ops (predict_request ops this q) (outside w) of
        (Inl e, out1) \<Rightarrow> Inl e
      | (Inr response, out1) \<Rightarrow> fst (response_json ops response out1)) \<and>
   filter is_console (events_since w (snd (predict ops this q w))) = []"
  by (simp add: recommend_eq predict_eq events_since_def split: prod.splits sum.splits)

theorem recommend_and_predict_propagate_rejections_witness:
  "fst (recommend sim_ops (sim_this ''https://api.recometry.com'')
          \<lparr>rec_modelId = ''m'', rec_userId = ''u'', rec_limit = 3\<rparr> (sim_world Connected True)) =
     Inl (Error ''Failed to fetch'') \<and>
   fst (predict sim_ops (sim_this ''https://localhost:5001'')
          \<lparr>pred_modelId = ''m'', pred_data = [], pred_limit = 3\<rparr> (sim_world Connected True)) =
     Inl (Error ''Unexpected token'')"
proof -
  note t = recommend_and_predict_propagate_rejections
  have "fst (recommend sim_ops (sim_this ''https://api.recometry.com'')
          \<lparr>rec_modelId = ''m'', rec_userId = ''u'', rec_limit = 3\<rparr> (sim_world Connected True)) =
     Inl (Error ''Failed to fetch'')"
    unfolding t [THEN conjunct1]
    by (simp add: sim_ops_def sim_fetch_def sim_this_def sim_world_def recommend_request_def)
  moreover have "fst (predict sim_ops (sim_this ''https://localhost:5001'')
          \<lparr>pred_modelId = ''m'', pred_data = [], pred_limit = 3\<rparr> (sim_world Connected True)) =
     Inl (Error ''Unexpected token'')"
    unfolding t [THEN conjunct2, THEN conjunct2, THEN conjunct1]
    by (simp add: sim_ops_def sim_fetch_def sim_json_def sim_this_def sim_world_def
        predict_request_def)
  ultimately show ?thesis by blast
qed

text \<open>
  Claim C10. For every request, \<^verbatim>\<open>recommend\<close> and \<^verbatim>\<open>predict\<close> leave the transport
  state as it was and make no call on the channel; they start with their \<^verbatim>\<open>fetch\<close>
  whatever the connection state is; and their outcome does not depend on the transport:
  with any other transport state, any other behaviour of \<^verbatim>\<open>state\<close>, \<^verbatim>\<open>start\<close>,
  \<^verbatim>\<open>stop\<close> and \<^verbatim>\<open>invoke\<close>, and any other channel handle, the settlement and the
  rest of the world are the same.
\<close>

theorem recommend_and_predict_leave_the_channel_alone:
  "hub (snd (recommend ops this p w)) = hub w \<and>
   filter is_hub_event (events_since w (snd (recommend ops this p w))) = [] \<and>
   take 1 (events_since w (snd (recommend ops this p w))) = [Fetch (recommend_request ops this p)] \<and>
   recommend (ops\<lparr>hub_state := st, hub_start := sa, hub_stop := so, hub_invoke := iv\<rparr>)
       (this\<lparr>websocket := ws\<rparr>) p (w\<lparr>hub := h\<rparr>) =
     (fst (recommend ops this p w), (snd (recommend ops this p w))\<lparr>hub := h\<rparr>) \<and>
   hub (snd (predict ops this q w)) = hub w \<and>
   filter is_hub_event (events_since w (snd (predict ops this q w))) = [] \<and>
   take 1 (events_since w (snd (predict ops this q w))) = [Fetch (predict_request ops this q)] \<and>
   predict (ops\<lparr>hub_state := st, hub_start := sa, hub_stop := so, hub_invoke := iv\<rparr>)
       (this\<lparr>websocket := ws\<rparr>) q (w\<lparr>hub := h\<rparr>) =
     (fst (predict ops this q w), (snd (predict ops this q w))\<lparr>hub := h\<rparr>)"
proof -
  have "hub (snd (recommend ops this p w)) = hub w"
       "filter is_hub_event (events_since w (snd (recommend ops this p w))) = []"
       "hub (snd (predict ops this q w)) = hub w"
       "filter is_hub_event (events_since w (snd (predict ops this q w))) = []"
    by (simp_all add: recommend_eq predict_eq events_since_def split: prod.splits sum.splits)
  moreover have "recommend (ops\<lparr>hub_state := st, hub_start := sa, hub_stop := so, hub_invoke := iv\<rparr>)
       (this\<lparr>websocket := ws\<rparr>) p (w\<lparr>hub := h\<rparr>) =
     (fst (recommend ops this p w), (snd (recommend ops this p w))\<lparr>hub := h\<rparr>)"
    by (simp add: recommend_eq recommend_request_def split: prod.splits sum.splits)
  moreover have "predict (ops\<lparr>hub_state := st, hub_start := sa, hub_stop := so, hub_invoke := iv\<rparr>)
       (this\<lparr>websocket := ws\<rparr>) q (w\<lparr>hub := h\<rparr>) =
     (fst (predict ops this q w), (snd (predict ops this q w))\<lparr>hub := h\<rparr>)"
    by (simp add: predict_eq predict_request_def split: prod.splits sum.splits)
  moreover note recommend_first_event [of w ops this p] predict_first_event [of w ops this q]
  ultimately show ?thesis by blast
qed

theorem recommend_and_predict_leave_the_channel_alone_witness:
  "hub (snd (recommend sim_ops (sim_this ''https://localhost:5001'')
          \<lparr>rec_modelId = ''m'', rec_userId = ''u'', rec_limit = 3\<rparr>
          (sim_world Reconnecting False))) = (Reconnecting, False) \<and>
   filter is_hub_event (events_since (sim_world Reconnecting False)
       (snd (predict sim_ops (sim_this ''https://localhost:5001'')
          \<lparr>pred_modelId = ''m'', pred_data = [], pred_limit = 3\<rparr>
          (sim_world Reconnecting False)))) = []"
proof -
  note t = recommend_and_predict_leave_the_channel_alone
             [of sim_ops "sim_this ''https://localhost:5001''"
                 "\<lparr>rec_modelId = ''m'', rec_userId = ''u'', rec_limit = 3\<rparr>"
                 "sim_world Reconnecting False" _ _ _ _ _ _
                 "\<lparr>pred_modelId = ''m'', pred_data = [], pred_limit = 3\<rparr>"]
  have "hub (snd (recommend sim_ops (sim_this ''https://localhost:5001'')
          \<lparr>rec_modelId = ''m'', rec_userId = ''u'', rec_limit = 3\<rparr>
          (sim_world Reconnecting False))) = (Reconnecting, False)"
    unfolding t [THEN conjunct1] by (simp add: sim_world_def)
  moreover from t have "filter is_hub_event (events_since (sim_world Reconnecting False)
       (snd (predict sim_ops (sim_this ''https://localhost:5001'')
          \<lparr>pred_modelId = ''m'', pred_data = [], pred_limit = 3\<rparr>
          (sim_world Reconnecting False)))) = []"
    by blast
  ultimately show ?thesis by blast
qed

end
